theory Spec2Isabelle
  imports Complex_Main "HOL-Library.Product_Lexorder" "HOL-Library.Sublist"
begin

section \<open>Python values, strings and exceptions\<close>

text \<open>
  A naive \<^verbatim>\<open>datetime\<close> is the tuple (year, month, day, hour, minute, second,
  microsecond); Python compares two of them field by field in this order, which is the
  lexicographic order of the tuple. The timestamps of a file are kept in this form, that
  is, after \<^verbatim>\<open>datetime.fromtimestamp\<close>.
\<close>

type_synonym datetime = "nat \<times> nat \<times> nat \<times> nat \<times> nat \<times> nat \<times> nat"

datatype pyval = VNone | VBool bool | VInt int | VStr string | VDatetime datetime

text \<open>The attribute dictionary returned by a validator.\<close>

type_synonym info = "string \<rightharpoonup> pyval"

datatype exn = FileNotFoundError | OSError | UnicodeDecodeError


definition digit :: "nat \<Rightarrow> char" where
  "digit n = ''0123456789'' ! (n mod 10)"

fun str_nat :: "nat \<Rightarrow> string" where
  "str_nat n = (if n < 10 then [digit n] else str_nat (n div 10) @ [digit n])"

declare str_nat.simps [simp del]

definition str_int :: "int \<Rightarrow> string" where
  "str_int i = (if i < 0 then ''-'' @ str_nat (nat (- i)) else str_nat (nat i))"

definition zpad :: "nat \<Rightarrow> nat \<Rightarrow> string" where
  "zpad width n = replicate (width - length (str_nat n)) (CHR ''0'') @ str_nat n"

definition str_datetime :: "datetime \<Rightarrow> string" where
  "str_datetime d =
     (case d of (y, mo, dd, h, mi, s, us) \<Rightarrow>
        zpad 4 y @ ''-'' @ zpad 2 mo @ ''-'' @ zpad 2 dd @ '' '' @
        zpad 2 h @ '':'' @ zpad 2 mi @ '':'' @ zpad 2 s @
        (if us = 0 then [] else ''.'' @ zpad 6 us))"

text \<open>Python's \<^verbatim>\<open>str(v)\<close>.\<close>

fun py_str :: "pyval \<Rightarrow> string" where
  "py_str VNone = ''None''"
| "py_str (VBool b) = (if b then ''True'' else ''False'')"
| "py_str (VInt i) = str_int i"
| "py_str (VStr s) = s"
| "py_str (VDatetime d) = str_datetime d"

definition quoted :: "string \<Rightarrow> string" where
  "quoted s = [CHR 0x27] @ s @ [CHR 0x27]"

section \<open>The filesystem seen by the validators\<close>

text \<open>
  One validation call sees one snapshot of the filesystem. A path is the string form of
  the \<^verbatim>\<open>pathlib.Path\<close> built from the input, so \<^verbatim>\<open>str(Path(s))\<close> is \<open>s\<close>.
  Every call that reaches the filesystem or the regular-expression engine is appended to
  \<open>calls\<close>, which makes observable which checks were evaluated.

  A path does not exist in one of two ways. Either the operating system reports that
  nothing is there (\<^verbatim>\<open>ENOENT\<close>, \<^verbatim>\<open>ENOTDIR\<close> and the other error numbers that
  \<^verbatim>\<open>pathlib\<close> ignores): the entry \<open>Missing\<close>. Or it refuses the lookup with another
  error, as it does with \<^verbatim>\<open>ENAMETOOLONG\<close> for a name longer than the filesystem allows:
  the entry \<open>Refused\<close>. \<^verbatim>\<open>Path.exists\<close>, \<^verbatim>\<open>Path.is_file\<close> and \<^verbatim>\<open>Path.is_dir\<close> are
  those of the Python 3.11 library: they answer \<^verbatim>\<open>False\<close> for an ignored error and
  re-raise any other \<^verbatim>\<open>OSError\<close>.
\<close>

datatype kind = RegularFile | Directory | Other

record node =
  kind :: kind
  st_size :: nat
  st_birthtime :: "datetime option"
  st_ctime :: datetime
  st_mtime :: datetime

datatype entry = Missing | Refused | Present node

datatype call = Exists string | IsFile string | IsDir string | Stat string
  | Search string string

record world =
  files :: "string \<Rightarrow> entry"
  calls :: "call list"

definition record_call :: "call \<Rightarrow> world \<Rightarrow> world" where
  "record_call c w = w\<lparr>calls := calls w @ [c]\<rparr>"

text \<open>\<^verbatim>\<open>path.stat()\<close> raises \<^verbatim>\<open>FileNotFoundError\<close> on a missing path.\<close>

definition Path_stat :: "string \<Rightarrow> world \<Rightarrow> (exn + node) \<times> world" where
  "Path_stat path w =
     ((case files w path of
         Missing \<Rightarrow> Inl FileNotFoundError
       | Refused \<Rightarrow> Inl OSError
       | Present nd \<Rightarrow> Inr nd),
      record_call (Stat path) w)"

definition Path_exists :: "string \<Rightarrow> world \<Rightarrow> (exn + bool) \<times> world" where
  "Path_exists path w =
     ((case files w path of
         Missing \<Rightarrow> Inr False
       | Refused \<Rightarrow> Inl OSError
       | Present nd \<Rightarrow> Inr True),
      record_call (Exists path) w)"

definition Path_is_file :: "string \<Rightarrow> world \<Rightarrow> (exn + bool) \<times> world" where
  "Path_is_file path w =
     ((case files w path of
         Missing \<Rightarrow> Inr False
       | Refused \<Rightarrow> Inl OSError
       | Present nd \<Rightarrow> Inr (kind nd = RegularFile)),
      record_call (IsFile path) w)"

definition Path_is_dir :: "string \<Rightarrow> world \<Rightarrow> (exn + bool) \<times> world" where
  "Path_is_dir path w =
     ((case files w path of
         Missing \<Rightarrow> Inr False
       | Refused \<Rightarrow> Inl OSError
       | Present nd \<Rightarrow> Inr (kind nd = Directory)),
      record_call (IsDir path) w)"

text \<open>\<^verbatim>\<open>path.name\<close>: the last component of the path.\<close>

definition path_name :: "string \<Rightarrow> string" where
  "path_name path =
     (if path = ''.'' then [] else rev (takeWhile (\<lambda>c. c \<noteq> CHR ''/'') (rev path)))"

text \<open>
  A compiled regular expression: its source text and its \<^verbatim>\<open>search\<close> method. The
  engine itself belongs to the Python library and is a parameter.
\<close>

record re_Pattern =
  pattern :: string
  search :: "string \<Rightarrow> bool"

definition Pattern_search :: "re_Pattern \<Rightarrow> string \<Rightarrow> world \<Rightarrow> bool \<times> world" where
  "Pattern_search pat s w = (search pat s, record_call (Search (pattern pat) s) w)"

section \<open>validator.py\<close>

record BaseValidator =
  name_pattern :: "re_Pattern option"
  creation_date_min :: "datetime option"
  creation_date_max :: "datetime option"
  modified_date_min :: "datetime option"
  modified_date_max :: "datetime option"

record FileValidator = BaseValidator +
  filesize_min :: "int option"
  filesize_max :: "int option"

text \<open>
  \<^verbatim>\<open>BaseValidator.__init__\<close>: the pattern is compiled only when it is given and not
  empty.
\<close>

definition BaseValidator_init ::
  "(string \<Rightarrow> re_Pattern) \<Rightarrow> string option \<Rightarrow> datetime option \<Rightarrow> datetime option \<Rightarrow>
   datetime option \<Rightarrow> datetime option \<Rightarrow> BaseValidator" where
  "BaseValidator_init re_compile np cmin cmax mmin mmax =
     \<lparr>name_pattern = (if np \<noteq> None \<and> the np \<noteq> [] then Some (re_compile (the np)) else None),
      creation_date_min = cmin, creation_date_max = cmax,
      modified_date_min = mmin, modified_date_max = mmax\<rparr>"

definition FileValidator_init ::
  "(string \<Rightarrow> re_Pattern) \<Rightarrow> string option \<Rightarrow> int option \<Rightarrow> int option \<Rightarrow>
   datetime option \<Rightarrow> datetime option \<Rightarrow> datetime option \<Rightarrow> datetime option \<Rightarrow>
   FileValidator" where
  "FileValidator_init re_compile np smin smax cmin cmax mmin mmax =
     BaseValidator.extend (BaseValidator_init re_compile np cmin cmax mmin mmax)
       \<lparr>filesize_min = smin, filesize_max = smax\<rparr>"

definition get_creation_time :: "string \<Rightarrow> world \<Rightarrow> (exn + datetime) \<times> world" where
  "get_creation_time path w =
     (case Path_stat path w of
        (Inl e, w') \<Rightarrow> (Inl e, w')
      | (Inr stat_result, w') \<Rightarrow>
          (Inr (case st_birthtime stat_result of
                  Some b \<Rightarrow> b
                | None \<Rightarrow> st_ctime stat_result), w'))"

definition err :: "string \<Rightarrow> exn + bool \<times> info" where
  "err msg = Inr (False, [''error'' \<mapsto> VStr msg])"

definition validate_common ::
  "'a BaseValidator_scheme \<Rightarrow> string \<Rightarrow> world \<Rightarrow> (exn + bool \<times> info) \<times> world" where
  "validate_common self path w =
     (let (matched, w1) =
            (case name_pattern self of
               None \<Rightarrow> (True, w)
             | Some pat \<Rightarrow> Pattern_search pat (path_name path) w);
          info1 = (case name_pattern self of
                     None \<Rightarrow> Map.empty
                   | Some pat \<Rightarrow> [''name_valid'' \<mapsto> VBool True])
      in if \<not> matched then
           (err (''Name '' @ quoted (path_name path) @ '' does not match pattern '' @
                 quoted (pattern (the (name_pattern self))) @ ''.''), w1)
         else
           (case get_creation_time path w1 of
              (Inl e, w2) \<Rightarrow> (Inl e, w2)
            | (Inr creation_time, w2) \<Rightarrow>
                (let info2 = info1(''creation_time'' \<mapsto> VDatetime creation_time)
                 in if creation_date_min self \<noteq> None
                       \<and> creation_time < the (creation_date_min self) then
                      (err (''Creation time '' @ str_datetime creation_time @
                            '' is before minimum allowed '' @
                            str_datetime (the (creation_date_min self)) @ ''.''), w2)
                    else if creation_date_max self \<noteq> None
                       \<and> creation_time > the (creation_date_max self) then
                      (err (''Creation time '' @ str_datetime creation_time @
                            '' is after maximum allowed '' @
                            str_datetime (the (creation_date_max self)) @ ''.''), w2)
                    else
                      (case Path_stat path w2 of
                         (Inl e, w3) \<Rightarrow> (Inl e, w3)
                       | (Inr st, w3) \<Rightarrow>
                           (let modified_time = st_mtime st;
                                info3 = info2(''modified_time'' \<mapsto> VDatetime modified_time)
                            in if modified_date_min self \<noteq> None
                                  \<and> modified_time < the (modified_date_min self) then
                                 (err (''Modified time '' @ str_datetime modified_time @
                                       '' is before minimum allowed '' @
                                       str_datetime (the (modified_date_min self)) @ ''.''), w3)
                               else if modified_date_max self \<noteq> None
                                  \<and> modified_time > the (modified_date_max self) then
                                 (err (''Modified time '' @ str_datetime modified_time @
                                       '' is after maximum allowed '' @
                                       str_datetime (the (modified_date_max self)) @ ''.''), w3)
                               else (Inr (True, info3), w3))))))"

definition FileValidator_validate ::
  "FileValidator \<Rightarrow> string \<Rightarrow> world \<Rightarrow> (exn + bool \<times> info) \<times> world" where
  "FileValidator_validate self path w =
     (case Path_exists path w of
        (Inl e, w1) \<Rightarrow> (Inl e, w1)
      | (Inr ex, w1) \<Rightarrow>
          if \<not> ex then (err (''Path '' @ quoted path @ '' does not exist.''), w1)
          else
            (case Path_is_file path w1 of
               (Inl e, w2) \<Rightarrow> (Inl e, w2)
             | (Inr isf, w2) \<Rightarrow>
                 if \<not> isf then (err (''Path '' @ quoted path @ '' is not a file.''), w2)
                 else
                   (case validate_common self path w2 of
                      (Inl e, w3) \<Rightarrow> (Inl e, w3)
                    | (Inr (is_valid, common_info), w3) \<Rightarrow>
                        if \<not> is_valid then (Inr (False, common_info), w3)
                        else
                          (case Path_stat path w3 of
                             (Inl e, w4) \<Rightarrow> (Inl e, w4)
                           | (Inr st, w4) \<Rightarrow>
                               (let filesize = int (st_size st);
                                    info = (Map.empty ++ common_info)(''filesize'' \<mapsto> VInt filesize)
                                in if filesize_min self \<noteq> None
                                      \<and> filesize < the (filesize_min self) then
                                     (err (''Filesize '' @ str_int filesize @
                                           '' is less than minimum allowed '' @
                                           str_int (the (filesize_min self)) @ ''.''), w4)
                                   else if filesize_max self \<noteq> None
                                      \<and> filesize > the (filesize_max self) then
                                     (err (''Filesize '' @ str_int filesize @
                                           '' is greater than maximum allowed '' @
                                           str_int (the (filesize_max self)) @ ''.''), w4)
                                   else (Inr (True, info), w4))))))"

definition FolderValidator_validate ::
  "BaseValidator \<Rightarrow> string \<Rightarrow> world \<Rightarrow> (exn + bool \<times> info) \<times> world" where
  "FolderValidator_validate self path w =
     (case Path_exists path w of
        (Inl e, w1) \<Rightarrow> (Inl e, w1)
      | (Inr ex, w1) \<Rightarrow>
          if \<not> ex then (err (''Path '' @ quoted path @ '' does not exist.''), w1)
          else
            (case Path_is_dir path w1 of
               (Inl e, w2) \<Rightarrow> (Inl e, w2)
             | (Inr isd, w2) \<Rightarrow>
                 if \<not> isd then (err (''Path '' @ quoted path @ '' is not a folder.''), w2)
                 else
                   (case validate_common self path w2 of
                      (Inl e, w3) \<Rightarrow> (Inl e, w3)
                    | (Inr (is_valid, common_info), w3) \<Rightarrow>
                        if \<not> is_valid then (Inr (False, common_info), w3)
                        else (Inr (True, Map.empty ++ common_info), w3))))"

text \<open>
  A validator object, as \<^verbatim>\<open>CompositeValidator\<close> and the event processor use it: any
  object with a \<^verbatim>\<open>validate(path_input)\<close> method. The method may raise, and it may act on
  its surroundings \<open>'w\<close>.
\<close>

type_synonym 'w validator = "string \<Rightarrow> 'w \<Rightarrow> (exn + bool \<times> info) \<times> 'w"

record 'w CompositeValidator =
  validators :: "'w validator list"

text \<open>The \<^verbatim>\<open>for\<close> loop of \<^verbatim>\<open>CompositeValidator.validate\<close>.\<close>

fun validate_each :: "'w validator list \<Rightarrow> string \<Rightarrow> info \<Rightarrow> 'w \<Rightarrow> (exn + bool \<times> info) \<times> 'w" where
  "validate_each [] path_input combined_info w = (Inr (True, combined_info), w)"
| "validate_each (v # vs) path_input combined_info w =
     (case v path_input w of
        (Inl e, w') \<Rightarrow> (Inl e, w')
      | (Inr (valid, info), w') \<Rightarrow>
          if \<not> valid then (Inr (False, info), w')
          else validate_each vs path_input (combined_info ++ info) w')"

definition CompositeValidator_validate ::
  "'w CompositeValidator \<Rightarrow> string \<Rightarrow> 'w \<Rightarrow> (exn + bool \<times> info) \<times> 'w" where
  "CompositeValidator_validate self path_input w =
     validate_each (validators self) path_input Map.empty w"

section \<open>processor.py\<close>

datatype event_type = Created | Modified

record event =
  src_path :: string
  is_directory :: bool
  kind_of_event :: event_type

text \<open>
  What the processor does to its queues and to the scheduler, in the order it happens.
\<close>

datatype effect = Get string | TaskDone | Put string | Sleep real

text \<open>
  The processor object with the contents of its two queues. \<open>event_queue\<close> holds the
  events not yet dequeued, in arrival order; \<open>buffer\<close> is \<open>None\<close> when no output queue is
  configured and otherwise holds the items put so far (an unbounded queue, as the task
  manager builds it). \<open>trace\<close> and \<open>surroundings\<close> are what the run leaves behind: the
  effects issued, and the state the validator acts on.
\<close>

record 'w EventProcessor =
  event_queue :: "event list"
  buffer :: "string list option"
  validator :: "'w validator option"
  process_delay :: "real option"
  trace :: "effect list"
  surroundings :: "'w"

definition task_done :: "'w EventProcessor \<Rightarrow> 'w EventProcessor" where
  "task_done self = self\<lparr>trace := trace self @ [TaskDone]\<rparr>"

definition buffer_put :: "string \<Rightarrow> 'w EventProcessor \<Rightarrow> 'w EventProcessor" where
  "buffer_put item self =
     self\<lparr>buffer := map_option (\<lambda>b. b @ [item]) (buffer self),
          trace := trace self @ [Put item]\<rparr>"

definition sleep :: "real \<Rightarrow> 'w EventProcessor \<Rightarrow> 'w EventProcessor" where
  "sleep d self = self\<lparr>trace := trace self @ [Sleep d]\<rparr>"

text \<open>
  The loop body of \<^verbatim>\<open>process_events\<close> from the delay on: the part reached when the
  validation block did not \<^verbatim>\<open>continue\<close>.
\<close>

definition forward :: "event \<Rightarrow> info \<Rightarrow> 'w EventProcessor \<Rightarrow> 'w EventProcessor" where
  "forward ev info self =
     (let self1 = (if process_delay self \<noteq> None \<and> the (process_delay self) \<noteq> 0
                   then sleep (the (process_delay self)) self else self)
      in if buffer self1 = None then task_done self1
         else
           (let folder_name = (case info ''new_folder'' of
                                 Some v \<Rightarrow> v
                               | None \<Rightarrow> VStr (src_path ev))
            in task_done (buffer_put (py_str folder_name) self1)))"

text \<open>
  The loop body for one dequeued event. The first component is the exception that leaves
  the loop, if the validator raised one.
\<close>

definition process_event :: "event \<Rightarrow> 'w EventProcessor \<Rightarrow> exn option \<times> 'w EventProcessor" where
  "process_event ev self =
     (case validator self of
        Some v \<Rightarrow>
          (case v (src_path ev) (surroundings self) of
             (Inl e, w') \<Rightarrow> (Some e, self\<lparr>surroundings := w'\<rparr>)
           | (Inr (valid, info), w') \<Rightarrow>
               if \<not> valid then (None, task_done (self\<lparr>surroundings := w'\<rparr>))
               else (None, forward ev info (self\<lparr>surroundings := w'\<rparr>)))
      | None \<Rightarrow> (None, forward ev Map.empty self))"

text \<open>
  The loop never returns: it ends suspended in \<^verbatim>\<open>get\<close> on the empty queue, or it is
  left by an exception.
\<close>

datatype outcome = Suspended | Raised exn

function process_events :: "'w EventProcessor \<Rightarrow> outcome \<times> 'w EventProcessor" where
  "process_events self =
     (case event_queue self of
        [] \<Rightarrow> (Suspended, self)
      | ev # rest \<Rightarrow>
          (case process_event ev
                  (self\<lparr>event_queue := rest, trace := trace self @ [Get (src_path ev)]\<rparr>) of
             (Some e, self') \<Rightarrow> (Raised e, self')
           | (None, self') \<Rightarrow> process_events self'))"
  by pat_completeness auto
termination
proof (relation "measure (\<lambda>self. length (event_queue self))")
  show "wf (measure (\<lambda>self. length (event_queue self)))"
    by simp
next
  fix self :: "'w EventProcessor" and ev rest x and self' :: "'w EventProcessor"
  assume q: "event_queue self = ev # rest"
    and step: "(x, self') = process_event ev
                 (self\<lparr>event_queue := rest, trace := trace self @ [Get (src_path ev)]\<rparr>)"
    and "x = None"
  have keep: "event_queue (snd (process_event ev s)) = event_queue s"
    for s :: "'w EventProcessor"
    by (simp add: process_event_def forward_def task_done_def buffer_put_def sleep_def Let_def
        split: option.split prod.split sum.split)
  from step have "self' = snd (process_event ev
                 (self\<lparr>event_queue := rest, trace := trace self @ [Get (src_path ev)]\<rparr>))"
    by (metis snd_conv)
  then have "event_queue self' = rest"
    by (simp add: keep)
  with q show "(self', self) \<in> measure (\<lambda>self. length (event_queue self))"
    by simp
qed

section \<open>synchronous/event_handler.py\<close>



record BaseEventHandler =
  validation_enabled :: bool
  validation_timeout :: real

record LastShotEventHandler = BaseEventHandler +
  trigger_filename :: string







section \<open>The validation order of the specification\<close>

text \<open>
  The specification describes a validator as a list of checks applied in order, the
  first check that does not pass ending the validation. A check is given here by the
  calls it makes and by its verdict; running a list of checks yields the calls made up
  to and including the first check that does not pass, and the verdict of that check.
\<close>

datatype verdict = Pass | Fail string | Raise exn

type_synonym check = "call list \<times> verdict"

fun run_checks :: "check list \<Rightarrow> call list \<times> verdict" where
  "run_checks [] = ([], Pass)"
| "run_checks (c # rest) =
     (if snd c = Pass then (fst c @ fst (run_checks rest), snd (run_checks rest))
      else (fst c, snd c))"

definition creation_time_of :: "node \<Rightarrow> datetime" where
  "creation_time_of nd = (case st_birthtime nd of Some b \<Rightarrow> b | None \<Rightarrow> st_ctime nd)"

text \<open>
  A range check of a value \<open>x\<close> against optional bounds: the lower bound is tested first.
\<close>

definition range_check ::
  "string \<Rightarrow> string \<Rightarrow> string \<Rightarrow> ('t \<Rightarrow> string) \<Rightarrow> ('t::linorder) option \<Rightarrow> 't option \<Rightarrow> 't \<Rightarrow> verdict" where
  "range_check what lo_text hi_text str lo hi x =
     (if lo \<noteq> None \<and> x < the lo then Fail (what @ str x @ lo_text @ str (the lo) @ ''.'')
      else if hi \<noteq> None \<and> x > the hi then Fail (what @ str x @ hi_text @ str (the hi) @ ''.'')
      else Pass)"

definition exists_check :: "string \<Rightarrow> entry \<Rightarrow> check" where
  "exists_check path en =
     ([Exists path],
      case en of
        Missing \<Rightarrow> Fail (''Path '' @ quoted path @ '' does not exist.'')
      | Refused \<Rightarrow> Raise OSError
      | Present nd \<Rightarrow> Pass)"

definition kind_check :: "call \<Rightarrow> kind \<Rightarrow> string \<Rightarrow> string \<Rightarrow> entry \<Rightarrow> check" where
  "kind_check c k what path en =
     ([c],
      case en of
        Missing \<Rightarrow> Fail (''Path '' @ quoted path @ '' is not a '' @ what @ ''.'')
      | Refused \<Rightarrow> Raise OSError
      | Present nd \<Rightarrow>
          if kind nd = k then Pass
          else Fail (''Path '' @ quoted path @ '' is not a '' @ what @ ''.''))"

definition name_check :: "'a BaseValidator_scheme \<Rightarrow> string \<Rightarrow> check" where
  "name_check self path =
     (case name_pattern self of
        None \<Rightarrow> ([], Pass)
      | Some pat \<Rightarrow>
          ([Search (pattern pat) (path_name path)],
           if search pat (path_name path) then Pass
           else Fail (''Name '' @ quoted (path_name path) @ '' does not match pattern '' @
                      quoted (pattern pat) @ ''.'')))"

definition stat_check :: "string \<Rightarrow> entry \<Rightarrow> (node \<Rightarrow> verdict) \<Rightarrow> check" where
  "stat_check path en f =
     ([Stat path],
      case en of
        Missing \<Rightarrow> Raise FileNotFoundError
      | Refused \<Rightarrow> Raise OSError
      | Present nd \<Rightarrow> f nd)"

definition creation_check :: "'a BaseValidator_scheme \<Rightarrow> string \<Rightarrow> entry \<Rightarrow> check" where
  "creation_check self path en =
     stat_check path en (\<lambda>nd.
       range_check ''Creation time '' '' is before minimum allowed '' '' is after maximum allowed ''
         str_datetime (creation_date_min self) (creation_date_max self) (creation_time_of nd))"

definition modified_check :: "'a BaseValidator_scheme \<Rightarrow> string \<Rightarrow> entry \<Rightarrow> check" where
  "modified_check self path en =
     stat_check path en (\<lambda>nd.
       range_check ''Modified time '' '' is before minimum allowed '' '' is after maximum allowed ''
         str_datetime (modified_date_min self) (modified_date_max self) (st_mtime nd))"


definition common_checks :: "'a BaseValidator_scheme \<Rightarrow> string \<Rightarrow> entry \<Rightarrow> check list" where
  "common_checks self path en =
     [name_check self path, creation_check self path en, modified_check self path en]"


definition FolderValidator_checks :: "BaseValidator \<Rightarrow> string \<Rightarrow> entry \<Rightarrow> check list" where
  "FolderValidator_checks self path en =
     [exists_check path en, kind_check (IsDir path) Directory ''folder'' path en]
     @ common_checks self path en"

text \<open>The attributes reported when every check has passed.\<close>

definition common_info :: "'a BaseValidator_scheme \<Rightarrow> entry \<Rightarrow> info" where
  "common_info self en =
     (case en of
        Present nd \<Rightarrow>
          (case name_pattern self of
             None \<Rightarrow> Map.empty
           | Some pat \<Rightarrow> [''name_valid'' \<mapsto> VBool True])
          (''creation_time'' \<mapsto> VDatetime (creation_time_of nd),
           ''modified_time'' \<mapsto> VDatetime (st_mtime nd))
      | _ \<Rightarrow> Map.empty)"


text \<open>
  What a validator returns for the outcome of its checks: the attributes when all have
  passed, the failure reason of the first that failed, or the exception it raised; and
  the calls made are added to the record.
\<close>

definition outcome_of :: "world \<Rightarrow> info \<Rightarrow> call list \<times> verdict \<Rightarrow> (exn + bool \<times> info) \<times> world" where
  "outcome_of w accepted r =
     ((case snd r of
         Pass \<Rightarrow> Inr (True, accepted)
       | Fail msg \<Rightarrow> err msg
       | Raise e \<Rightarrow> Inl e),
      w\<lparr>calls := calls w @ fst r\<rparr>)"

section \<open>The timeout of the polling validators\<close>



section \<open>Example inputs\<close>

text \<open>
  A validator object that answers \<open>ok\<close> with the one-entry attribute map \<open>k \<mapsto> v\<close> and
  counts, in its surroundings, how often it has been invoked.
\<close>

definition example_validator :: "bool \<Rightarrow> string \<Rightarrow> pyval \<Rightarrow> nat validator" where
  "example_validator ok k v path_input n = (Inr (ok, [k \<mapsto> v]), Suc n)"

text \<open>A validator object whose \<^verbatim>\<open>validate\<close> raises \<open>e\<close>.\<close>

definition raising_validator :: "exn \<Rightarrow> nat validator" where
  "raising_validator e path_input n = (Inl e, Suc n)"

definition example_event :: "string \<Rightarrow> event" where
  "example_event p = \<lparr>src_path = p, is_directory = False, kind_of_event = Created\<rparr>"

definition example_processor ::
  "nat validator option \<Rightarrow> string list option \<Rightarrow> event list \<Rightarrow> nat EventProcessor" where
  "example_processor v b q =
     \<lparr>event_queue = q, buffer = b, validator = v, process_delay = Some 0,
      trace = [], surroundings = 0\<rparr>"

text \<open>
  A regular-expression engine for patterns without special characters: \<^verbatim>\<open>search\<close>
  finds the pattern as a substring. A filesystem with the files of the test suite, in
  which a name of more than 255 characters is refused by the operating system.
\<close>

definition literal_pattern :: "string \<Rightarrow> re_Pattern" where
  "literal_pattern s = \<lparr>pattern = s, search = sublist s\<rparr>"

definition example_node :: "kind \<Rightarrow> nat \<Rightarrow> node" where
  "example_node k n =
     \<lparr>kind = k, st_size = n, st_birthtime = None,
      st_ctime = (2025, 3, 1, 12, 0, 0, 0), st_mtime = (2025, 3, 2, 8, 30, 0, 0)\<rparr>"

definition example_world :: world where
  "example_world =
     \<lparr>files = (\<lambda>p.
         if 255 < length (path_name p) then Refused
         else if p = ''/tmp/report.txt'' then Present (example_node RegularFile 1500)
         else if p = ''/tmp/other.txt'' then Present (example_node RegularFile 1500)
         else if p = ''/tmp/small/report.txt'' then Present (example_node RegularFile 500)
         else if p = ''/tmp/big/report.txt'' then Present (example_node RegularFile 2500)
         else if p = ''/tmp/seven/report.txt'' then Present (example_node RegularFile 7)
         else if p = ''/tmp/data_folder'' then Present (example_node Directory 4096)
         else Missing),
      calls = []\<rparr>"

definition report_validator :: FileValidator where
  "report_validator =
     FileValidator_init literal_pattern (Some ''report'') (Some 1000) (Some 2000)
       None None None None"

definition inverted_validator :: FileValidator where
  "inverted_validator =
     FileValidator_init literal_pattern None (Some 10) (Some 5) None None None None"

definition folder_validator :: BaseValidator where
  "folder_validator = BaseValidator_init literal_pattern None None None None None"





section \<open>Properties of the composite validator\<close>

text \<open>
  C10. A composite validator built from the empty list accepts every path with an empty
  attribute map. It makes no call at all: the surroundings, and with them the record of
  filesystem calls, are returned as they were.
\<close>

theorem composite_empty_accepts:
  "CompositeValidator_validate \<lparr>validators = []\<rparr> p w = (Inr (True, Map.empty), w)"
  by (simp add: CompositeValidator_validate_def)

text \<open>
  C4. For a composite of two validators \<open>V1\<close> and \<open>V2\<close>: the composite accepts exactly
  when \<open>V1\<close> accepts and \<open>V2\<close>, invoked after it, accepts; when \<open>V1\<close> rejects, the
  composite returns what \<open>V1\<close> returned, result and surroundings alike, whatever \<open>V2\<close> is,
  so \<open>V2\<close> is not invoked; when both accept, the attribute map is the map of \<open>V1\<close>
  overridden by the map of \<open>V2\<close>.
\<close>

theorem composite_pair:
  fixes V1 V2 :: "'w validator"
  shows "((\<exists>i. fst (CompositeValidator_validate \<lparr>validators = [V1, V2]\<rparr> p w) = Inr (True, i))
            = ((\<exists>i1. fst (V1 p w) = Inr (True, i1))
               \<and> (\<exists>i2. fst (V2 p (snd (V1 p w))) = Inr (True, i2))))
       \<and> (\<forall>i1. fst (V1 p w) = Inr (False, i1) \<longrightarrow>
              CompositeValidator_validate \<lparr>validators = [V1, V2]\<rparr> p w = V1 p w)
       \<and> (\<forall>i1 i2. fst (V1 p w) = Inr (True, i1)
              \<and> fst (V2 p (snd (V1 p w))) = Inr (True, i2) \<longrightarrow>
              CompositeValidator_validate \<lparr>validators = [V1, V2]\<rparr> p w
                = (Inr (True, i1 ++ i2), snd (V2 p (snd (V1 p w)))))"
  by (cases "V1 p w"; cases "V2 p (snd (V1 p w))")
     (auto simp: CompositeValidator_validate_def split: sum.splits prod.splits)

theorem composite_pair_witness:
  "CompositeValidator_validate
     \<lparr>validators = [example_validator False ''error'' (VStr ''no''),
                    example_validator True ''a'' (VInt 1)]\<rparr> ''f'' 0
     = (Inr (False, [''error'' \<mapsto> VStr ''no'']), 1)
   \<and> CompositeValidator_validate
     \<lparr>validators = [example_validator True ''k'' (VInt 1),
                    example_validator True ''k'' (VInt 2)]\<rparr> ''f'' 0
     = (Inr (True, [''k'' \<mapsto> VInt 1] ++ [''k'' \<mapsto> VInt 2]), 2)"
  using composite_pair [of "example_validator False ''error'' (VStr ''no'')"
                           "example_validator True ''a'' (VInt 1)" "''f''" 0]
        composite_pair [of "example_validator True ''k'' (VInt 1)"
                           "example_validator True ''k'' (VInt 2)" "''f''" 0]
  by (simp add: example_validator_def)

section \<open>Properties of the event processor\<close>

text \<open>
  C1. When a validator is configured and rejects the source path of a dequeued event, the
  loop body puts nothing into the buffer: the buffer is unchanged and the only effect is
  the one \<^verbatim>\<open>task_done\<close>.
\<close>

theorem rejected_event_not_enqueued:
  assumes "validator self = Some v"
    and "fst (v (src_path ev) (surroundings self)) = Inr (False, info)"
  shows "fst (process_event ev self) = None
       \<and> buffer (snd (process_event ev self)) = buffer self
       \<and> trace (snd (process_event ev self)) = trace self @ [TaskDone]"
  using assms
  by (cases "v (src_path ev) (surroundings self)")
     (simp add: process_event_def task_done_def)

theorem rejected_event_not_enqueued_witness:
  "fst (process_event (example_event ''a'')
          (example_processor (Some (example_validator False ''error'' (VStr ''no''))) (Some [''x'']) [])) = None
   \<and> buffer (snd (process_event (example_event ''a'')
          (example_processor (Some (example_validator False ''error'' (VStr ''no''))) (Some [''x'']) []))) = Some [''x'']
   \<and> trace (snd (process_event (example_event ''a'')
          (example_processor (Some (example_validator False ''error'' (VStr ''no''))) (Some [''x'']) []))) = [TaskDone]"
  using rejected_event_not_enqueued [of
          "example_processor (Some (example_validator False ''error'' (VStr ''no''))) (Some [''x'']) []"
          "example_validator False ''error'' (VStr ''no'')" "example_event ''a''" "[''error'' \<mapsto> VStr ''no'']"]
  by (simp add: example_processor_def example_validator_def example_event_def)

text \<open>
  C6. When the validator accepts and a buffer is configured, the item appended to the
  buffer is the string form of the value under \<^verbatim>\<open>new_folder\<close> in the returned
  attribute map if that key is present, and of the event's source path otherwise.
\<close>

theorem accepted_event_enqueued:
  assumes "validator self = Some v"
    and "v (src_path ev) (surroundings self) = (Inr (True, info), w')"
    and "buffer self = Some b"
  shows "buffer (snd (process_event ev self))
           = Some (b @ [py_str (case info ''new_folder'' of
                                  Some override \<Rightarrow> override
                                | None \<Rightarrow> VStr (src_path ev))])"
  using assms
  by (simp add: process_event_def forward_def task_done_def buffer_put_def sleep_def Let_def)

theorem accepted_event_enqueued_witness:
  "buffer (snd (process_event (example_event ''a'')
      (example_processor (Some (example_validator True ''new_folder'' (VStr ''b''))) (Some [''x'']) [])))
     = Some [''x'', ''b'']
   \<and> buffer (snd (process_event (example_event ''a'')
      (example_processor (Some (example_validator True ''other'' (VStr ''b''))) (Some [''x'']) [])))
     = Some [''x'', ''a'']"
  using accepted_event_enqueued [of
          "example_processor (Some (example_validator True ''new_folder'' (VStr ''b''))) (Some [''x'']) []"
          "example_validator True ''new_folder'' (VStr ''b'')" "example_event ''a''"
          "[''new_folder'' \<mapsto> VStr ''b'']" 1 "[''x'']"]
        accepted_event_enqueued [of
          "example_processor (Some (example_validator True ''other'' (VStr ''b''))) (Some [''x'']) []"
          "example_validator True ''other'' (VStr ''b'')" "example_event ''a''"
          "[''other'' \<mapsto> VStr ''b'']" 1 "[''x'']"]
  by (simp add: example_processor_def example_validator_def example_event_def)

lemma forward_plain:
  assumes "process_delay s = Some 0" and "buffer s = Some b"
  shows "forward ev Map.empty s
           = s\<lparr>buffer := Some (b @ [src_path ev]),
                trace := trace s @ [Put (src_path ev), TaskDone]\<rparr>"
  using assms by (simp add: forward_def task_done_def buffer_put_def Let_def)

lemma process_events_Nil:
  "event_queue s = [] \<Longrightarrow> process_events s = (Suspended, s)"
  by (subst process_events.simps) simp

lemma process_events_Cons:
  "event_queue s = ev # rest \<Longrightarrow>
   process_events s =
     (case process_event ev (s\<lparr>event_queue := rest, trace := trace s @ [Get (src_path ev)]\<rparr>) of
        (Some e, s') \<Rightarrow> (Raised e, s')
      | (None, s') \<Rightarrow> process_events s')"
  by (subst process_events.simps) simp

text \<open>
  C8. With no validator, a delay of zero and a buffer, the loop empties the event queue
  and appends the source paths, verbatim and in arrival order, to the buffer; every event
  is dequeued, put and marked done in turn, nothing sleeps, and the loop ends suspended
  on the empty queue.
\<close>

theorem forwards_in_arrival_order:
  assumes "validator self = None" and "process_delay self = Some 0"
    and "buffer self = Some b"
  shows "process_events self =
           (Suspended,
            self\<lparr>event_queue := [],
                 buffer := Some (b @ map src_path (event_queue self)),
                 trace := trace self @
                   concat (map (\<lambda>e. [Get (src_path e), Put (src_path e), TaskDone])
                               (event_queue self))\<rparr>)"
  using assms
proof (induction "event_queue self" arbitrary: self b)
  case Nil
  then show ?case
    by (simp add: process_events_Nil)
next
  case (Cons ev rest)
  let ?s1 = "self\<lparr>event_queue := rest, trace := trace self @ [Get (src_path ev)]\<rparr>"
  let ?s2 = "?s1\<lparr>buffer := Some (b @ [src_path ev]),
                  trace := trace ?s1 @ [Put (src_path ev), TaskDone]\<rparr>"
  have q: "event_queue self = ev # rest"
    using Cons.hyps(2) by simp
  have step: "process_event ev ?s1 = (None, ?s2)"
    using Cons.prems by (simp add: process_event_def forward_plain)
  have "process_events self = process_events ?s2"
    using q step by (simp add: process_events_Cons)
  also have "process_events ?s2 =
      (Suspended,
       ?s2\<lparr>event_queue := [],
            buffer := Some ((b @ [src_path ev]) @ map src_path (event_queue ?s2)),
            trace := trace ?s2 @
              concat (map (\<lambda>e. [Get (src_path e), Put (src_path e), TaskDone])
                          (event_queue ?s2))\<rparr>)"
    using Cons.prems by (intro Cons.hyps(1)) simp_all
  finally show ?case
    using q by simp
qed

theorem forwards_in_arrival_order_witness:
  "process_events (example_processor None (Some [''x'']) [example_event ''a'', example_event ''b''])
     = (Suspended,
        (example_processor None (Some [''x'']) [example_event ''a'', example_event ''b''])
          \<lparr>event_queue := [], buffer := Some [''x'', ''a'', ''b''],
           trace := [Get ''a'', Put ''a'', TaskDone, Get ''b'', Put ''b'', TaskDone]\<rparr>)"
  using forwards_in_arrival_order
          [of "example_processor None (Some [''x'']) [example_event ''a'', example_event ''b'']" "[''x'']"]
  by (simp add: example_processor_def example_event_def)

lemma count_forward:
  "count_list (trace (forward ev info s)) TaskDone = count_list (trace s) TaskDone + 1"
  by (simp add: forward_def task_done_def buffer_put_def sleep_def Let_def)

lemma process_event_task_done:
  "process_event ev s = (None, s') \<Longrightarrow>
     count_list (trace s') TaskDone = count_list (trace s) TaskDone + 1"
  by (auto simp: process_event_def count_forward task_done_def
           split: option.splits prod.splits sum.splits if_splits)

lemma process_event_queue:
  "process_event ev s = (x, s') \<Longrightarrow> event_queue s' = event_queue s"
  by (auto simp: process_event_def forward_def task_done_def buffer_put_def sleep_def Let_def
           split: option.splits prod.splits sum.splits if_splits)

lemma loop_task_done:
  "fst (process_events s) = Suspended \<Longrightarrow>
   count_list (trace (snd (process_events s))) TaskDone
     = count_list (trace s) TaskDone + length (event_queue s)"
proof (induction s rule: process_events.induct)
  case (1 self)
  show ?case
  proof (cases "event_queue self")
    case Nil
    then show ?thesis by (simp add: process_events_Nil)
  next
    case (Cons ev rest)
    let ?s1 = "self\<lparr>event_queue := rest, trace := trace self @ [Get (src_path ev)]\<rparr>"
    obtain x s' where step: "process_event ev ?s1 = (x, s')"
      by (cases "process_event ev ?s1")
    show ?thesis
    proof (cases x)
      case None
      have eq: "process_events self = process_events s'"
        using Cons step None by (simp add: process_events_Cons)
      have "count_list (trace (snd (process_events s'))) TaskDone
              = count_list (trace s') TaskDone + length (event_queue s')"
        using "1.IH" [of ev rest x s'] Cons step None "1.prems" eq by simp
      moreover have "count_list (trace s') TaskDone = count_list (trace self) TaskDone + 1"
        using process_event_task_done [of ev ?s1 s'] step None by simp
      moreover have "event_queue s' = rest"
        using process_event_queue [OF step] by simp
      ultimately show ?thesis
        using eq Cons by simp
    next
      case (Some e)
      then have "fst (process_events self) = Raised e"
        using Cons step by (simp add: process_events_Cons)
      with "1.prems" show ?thesis by simp
    qed
  qed
qed

text \<open>
  C2. Every dequeued event is to be marked done exactly once. The loop body does so on the
  three branches that complete a pass (validation failure, no buffer, enqueue), as
  \<open>process_event_task_done\<close> and \<open>loop_task_done\<close> show, but not when the validator raises:
  the exception leaves the loop between \<^verbatim>\<open>get\<close> and \<^verbatim>\<open>task_done\<close>. Here the event
  \<open>a\<close> is dequeued and never marked done, and the event \<open>b\<close> behind it stays in the queue.
  The consumer loop of \<^verbatim>\<open>path_task_manager.py\<close> issues its \<^verbatim>\<open>task_done\<close> under
  \<^verbatim>\<open>finally\<close>; this loop does not.
\<close>

theorem raising_validator_skips_task_done:
  "process_events (example_processor (Some (raising_validator OSError)) (Some [])
                     [example_event ''a'', example_event ''b''])
     = (Raised OSError,
        \<lparr>event_queue = [example_event ''b''], buffer = Some [],
         validator = Some (raising_validator OSError), process_delay = Some 0,
         trace = [Get ''a''], surroundings = 1\<rparr>)"
  by (subst process_events.simps)
     (simp add: process_event_def example_processor_def raising_validator_def example_event_def)

section \<open>Properties of the file and folder validators\<close>


text \<open>
  The common validation is the list of the name check, the creation-time check and the
  modified-time check, and the file validator is the list \<open>FileValidator_checks\<close>.
\<close>

lemma validate_common_checks:
  "validate_common self path w =
     outcome_of w (common_info self (files w path))
       (run_checks (common_checks self path (files w path)))"
  by (cases "files w path"; cases "name_pattern self")
     (simp_all add: validate_common_def outcome_of_def common_checks_def name_check_def
        creation_check_def modified_check_def stat_check_def range_check_def common_info_def
        creation_time_of_def get_creation_time_def Path_stat_def Pattern_search_def
        record_call_def Let_def)


lemma FolderValidator_validate_checks:
  "FolderValidator_validate self path w =
     outcome_of w (common_info self (files w path))
       (run_checks (FolderValidator_checks self path (files w path)))"
proof (cases "files w path")
  case Missing
  then show ?thesis
    by (simp add: FolderValidator_validate_def FolderValidator_checks_def exists_check_def
        outcome_of_def Path_exists_def record_call_def)
next
  case Refused
  then show ?thesis
    by (simp add: FolderValidator_validate_def FolderValidator_checks_def exists_check_def
        outcome_of_def Path_exists_def record_call_def)
next
  case (Present nd)
  show ?thesis
  proof (cases "kind nd = Directory")
    case False
    with Present show ?thesis
      by (simp add: FolderValidator_validate_def FolderValidator_checks_def exists_check_def
          kind_check_def outcome_of_def Path_exists_def Path_is_dir_def record_call_def)
  next
    case True
    obtain cs v where r: "run_checks (common_checks self path (Present nd)) = (cs, v)"
      by (cases "run_checks (common_checks self path (Present nd))")
    from Present True r show ?thesis
      by (cases v)
         (simp_all add: FolderValidator_validate_def FolderValidator_checks_def exists_check_def
            kind_check_def outcome_of_def Path_exists_def Path_is_dir_def
            record_call_def validate_common_checks err_def)
  qed
qed


lemma validate_common_accepts:
  assumes "fst (validate_common self path w) = Inr (True, ci)"
  shows "validate_common self path (w\<lparr>calls := cs\<rparr>)
           = (Inr (True, ci),
              w\<lparr>calls := cs @ fst (run_checks (common_checks self path (files w path)))\<rparr>)"
  using assms by (simp add: validate_common_checks outcome_of_def)

lemma path_name_replicate:
  "c \<noteq> CHR ''/'' \<Longrightarrow> 1 < n \<Longrightarrow> path_name (replicate n c) = replicate n c"
proof -
  assume c: "c \<noteq> CHR ''/''" and n: "1 < n"
  have "length (replicate n c) \<noteq> length ''.''"
    using n by simp
  then have "replicate n c \<noteq> ''.''"
    by metis
  then show ?thesis
    using c by (simp add: path_name_def)
qed

lemma example_world_gone: "files example_world ''/tmp/gone.txt'' = Missing"
  by (simp add: example_world_def path_name_def)

lemma example_world_long_name:
  "c \<noteq> CHR ''/'' \<Longrightarrow> 255 < n \<Longrightarrow> files example_world (replicate n c) = Refused"
  by (simp add: example_world_def path_name_replicate)

lemma example_world_calls: "calls example_world = []"
  by (simp add: example_world_def)




text \<open>
  C5. For an existing regular file that passes the common checks: a size strictly below
  a configured minimum is rejected with the reason "less than minimum"; a size strictly
  above a configured maximum, and not below a configured minimum, is rejected with the
  reason "greater than maximum"; a size that respects every configured bound is
  accepted, and the size is added to the attributes of the common checks.
\<close>

theorem size_range_check:
  assumes "files w path = Present nd" and "kind nd = RegularFile"
    and "fst (validate_common self path w) = Inr (True, ci)"
  shows "(filesize_min self = Some mn \<and> int (st_size nd) < mn \<longrightarrow>
            fst (FileValidator_validate self path w)
              = err (''Filesize '' @ str_int (int (st_size nd)) @
                     '' is less than minimum allowed '' @ str_int mn @ ''.''))
       \<and> (filesize_max self = Some mx \<and> int (st_size nd) > mx
            \<and> (filesize_min self = None \<or> the (filesize_min self) \<le> int (st_size nd)) \<longrightarrow>
            fst (FileValidator_validate self path w)
              = err (''Filesize '' @ str_int (int (st_size nd)) @
                     '' is greater than maximum allowed '' @ str_int mx @ ''.''))
       \<and> ((filesize_min self = None \<or> the (filesize_min self) \<le> int (st_size nd))
            \<and> (filesize_max self = None \<or> int (st_size nd) \<le> the (filesize_max self)) \<longrightarrow>
            fst (FileValidator_validate self path w)
              = Inr (True, ci(''filesize'' \<mapsto> VInt (int (st_size nd)))))"
proof -
  let ?w2 = "w\<lparr>calls := calls w @ [Exists path, IsFile path]\<rparr>"
  let ?w3 = "w\<lparr>calls := (calls w @ [Exists path, IsFile path])
                 @ fst (run_checks (common_checks self path (files w path)))\<rparr>"
  have common: "validate_common self path ?w2 = (Inr (True, ci), ?w3)"
    using assms(3) by (rule validate_common_accepts)
  have v: "fst (FileValidator_validate self path w) =
      (if filesize_min self \<noteq> None \<and> int (st_size nd) < the (filesize_min self) then
         err (''Filesize '' @ str_int (int (st_size nd)) @
              '' is less than minimum allowed '' @ str_int (the (filesize_min self)) @ ''.'')
       else if filesize_max self \<noteq> None \<and> int (st_size nd) > the (filesize_max self) then
         err (''Filesize '' @ str_int (int (st_size nd)) @
              '' is greater than maximum allowed '' @ str_int (the (filesize_max self)) @ ''.'')
       else Inr (True, ci(''filesize'' \<mapsto> VInt (int (st_size nd)))))"
    using assms(1,2) common
    by (simp add: FileValidator_validate_def Path_exists_def Path_is_file_def Path_stat_def
        record_call_def Let_def)
  show ?thesis
    unfolding v by auto
qed

theorem size_range_check_witness:
  "fst (FileValidator_validate report_validator ''/tmp/small/report.txt'' example_world)
     = err ''Filesize 500 is less than minimum allowed 1000.''
   \<and> fst (FileValidator_validate report_validator ''/tmp/big/report.txt'' example_world)
     = err ''Filesize 2500 is greater than maximum allowed 2000.''
   \<and> fst (FileValidator_validate report_validator ''/tmp/report.txt'' example_world)
     = Inr (True, [''name_valid'' \<mapsto> VBool True,
                   ''creation_time'' \<mapsto> VDatetime (2025, 3, 1, 12, 0, 0, 0),
                   ''modified_time'' \<mapsto> VDatetime (2025, 3, 2, 8, 30, 0, 0),
                   ''filesize'' \<mapsto> VInt 1500])"
  using size_range_check [of example_world "''/tmp/small/report.txt''"
          "example_node RegularFile 500" report_validator
          "[''name_valid'' \<mapsto> VBool True,
            ''creation_time'' \<mapsto> VDatetime (2025, 3, 1, 12, 0, 0, 0),
            ''modified_time'' \<mapsto> VDatetime (2025, 3, 2, 8, 30, 0, 0)]" 1000 2000]
        size_range_check [of example_world "''/tmp/big/report.txt''"
          "example_node RegularFile 2500" report_validator
          "[''name_valid'' \<mapsto> VBool True,
            ''creation_time'' \<mapsto> VDatetime (2025, 3, 1, 12, 0, 0, 0),
            ''modified_time'' \<mapsto> VDatetime (2025, 3, 2, 8, 30, 0, 0)]" 1000 2000]
        size_range_check [of example_world "''/tmp/report.txt''"
          "example_node RegularFile 1500" report_validator
          "[''name_valid'' \<mapsto> VBool True,
            ''creation_time'' \<mapsto> VDatetime (2025, 3, 1, 12, 0, 0, 0),
            ''modified_time'' \<mapsto> VDatetime (2025, 3, 2, 8, 30, 0, 0)]" 1000 2000]
  by (simp add: validate_common_def get_creation_time_def Path_stat_def Pattern_search_def
      record_call_def Let_def
      example_world_def report_validator_def FileValidator_init_def BaseValidator_init_def
      BaseValidator.extend_def literal_pattern_def
      path_name_def example_node_def sublist_code str_int_def str_nat.simps digit_def)

text \<open>
  As the specification words C5, the reason is "greater than maximum" whenever the size
  is strictly above the maximum. The minimum is tested first: with the bounds 10 and 5, a
  file of 7 bytes is above the maximum and is rejected as below the minimum.
\<close>

theorem inverted_bounds_reason:
  "filesize_max inverted_validator = Some 5
   \<and> files example_world ''/tmp/seven/report.txt'' = Present (example_node RegularFile 7)
   \<and> FileValidator_validate inverted_validator ''/tmp/seven/report.txt'' example_world
     = (err ''Filesize 7 is less than minimum allowed 10.'',
        example_world\<lparr>calls := [Exists ''/tmp/seven/report.txt'', IsFile ''/tmp/seven/report.txt'',
           Stat ''/tmp/seven/report.txt'', Stat ''/tmp/seven/report.txt'',
           Stat ''/tmp/seven/report.txt'']\<rparr>)
   \<and> \<not> sublist ''greater than maximum'' ''Filesize 7 is less than minimum allowed 10.''"
  by (simp add: FileValidator_validate_def validate_common_def get_creation_time_def
      Path_exists_def Path_is_file_def Path_stat_def record_call_def
      example_world_def inverted_validator_def FileValidator_init_def BaseValidator_init_def
      BaseValidator.extend_def Let_def
      path_name_def example_node_def str_int_def str_nat.simps digit_def sublist_code)

text \<open>
  C7. A path at which the operating system reports nothing is rejected by both
  validators with the reason that the path does not exist, after the one call of
  \<^verbatim>\<open>exists\<close>: no other call is made, so nothing else can raise.
\<close>

theorem missing_path_rejected:
  assumes "files w path = Missing"
  shows "FileValidator_validate fv path w
           = (err (''Path '' @ quoted path @ '' does not exist.''), record_call (Exists path) w)
       \<and> FolderValidator_validate dv path w
           = (err (''Path '' @ quoted path @ '' does not exist.''), record_call (Exists path) w)"
  using assms
  by (simp add: FileValidator_validate_def FolderValidator_validate_def Path_exists_def)

theorem missing_path_rejected_witness:
  "FileValidator_validate report_validator ''/tmp/gone.txt'' example_world
       = (err ''Path '/tmp/gone.txt' does not exist.'',
          example_world\<lparr>calls := [Exists ''/tmp/gone.txt'']\<rparr>)
   \<and> FolderValidator_validate folder_validator ''/tmp/gone.txt'' example_world
       = (err ''Path '/tmp/gone.txt' does not exist.'',
          example_world\<lparr>calls := [Exists ''/tmp/gone.txt'']\<rparr>)"
  using missing_path_rejected [of example_world "''/tmp/gone.txt''" report_validator
          folder_validator]
  by (simp add: example_world_gone example_world_calls record_call_def quoted_def)

text \<open>
  As the specification words C7, it covers every path that does not exist. A name of
  300 characters is longer than the filesystem allows, so no such path exists; its
  lookup is refused, \<^verbatim>\<open>exists\<close> raises, and both validators raise \<^verbatim>\<open>OSError\<close> instead
  of returning a reason.
\<close>

theorem refused_lookup_raises:
  "files example_world (replicate 300 (CHR ''a'')) = Refused
   \<and> FileValidator_validate report_validator (replicate 300 (CHR ''a'')) example_world
       = (Inl OSError, example_world\<lparr>calls := [Exists (replicate 300 (CHR ''a''))]\<rparr>)
   \<and> FolderValidator_validate folder_validator (replicate 300 (CHR ''a'')) example_world
       = (Inl OSError, example_world\<lparr>calls := [Exists (replicate 300 (CHR ''a''))]\<rparr>)"
  by (simp add: FileValidator_validate_def FolderValidator_validate_def Path_exists_def
      record_call_def example_world_long_name example_world_calls)

section \<open>Properties of the polling validators\<close>





end
